theory Spec2Isabelle
  imports Main "HOL-Library.AList" "HOL-Library.Sublist"
begin

section \<open>The subgraph client: query builder and response normalizer\<close>

text \<open>
  A shallow embedding of \<^verbatim>\<open>packages/subgraph/src/subgraph.ts\<close>: the class
  \<^verbatim>\<open>Subgraph\<close> with its two methods \<^verbatim>\<open>getGroups\<close> and \<^verbatim>\<open>getGroup\<close>.
  Each method builds a query text from its options, hands it to the transport, and
  reshapes the decoded answer. Strings are \<open>char list\<close>s; a template literal is the
  concatenation of its literal chunks and its interpolated values, line breaks written
  \<open>\<newline>\<close>.
\<close>

subsection \<open>Values decoded from the service's answer\<close>

text \<open>
  The transport hands back decoded JSON, which the methods treat as \<^verbatim>\<open>any\<close>.
  \<open>JUndefined\<close> is JavaScript's \<^verbatim>\<open>undefined\<close>: decoded JSON never holds it, but
  reading a property that is not there, or an index out of range, yields it. An object is
  the list of its own properties in insertion order. Decoded JSON is a tree (no object is
  reachable twice), so updating a property in place is updating the value. Numbers are
  only carried along, never inspected.
\<close>

datatype jsval =
    JUndefined
  | JNull
  | JBool bool
  | JNum int
  | JStr string
  | JArr "jsval list"
  | JObj "(string \<times> jsval) list"

text \<open>The results of \<^verbatim>\<open>typeof\<close> that the parameter checks ask for.\<close>

datatype js_type = T_string | T_boolean | T_object

datatype error =
    InvalidParameterError string js_type
  | TransportError string
  | TypeError

subsection \<open>Options\<close>

text \<open>
  Modelled from the spec: the types \<^verbatim>\<open>GroupOptions\<close> and its \<^verbatim>\<open>filters\<close>
  (\<^verbatim>\<open>./types\<close> is not among the sources). Every field is optional; \<open>None\<close> is a field
  that is not there. The date type \<open>'d\<close> is JavaScript's \<^verbatim>\<open>Date\<close>, an object, so a
  date that is there is always truthy.
\<close>

record 'd GroupFilters =
  admin :: "string option"
  timestamp :: "'d option"
  timestampGte :: "'d option"
  timestampLte :: "'d option"

record 'd GroupOptions =
  members :: "bool option"
  verifiedProofs :: "bool option"
  filters :: "'d GroupFilters option"

text \<open>
  Modelled from the spec: \<^verbatim>\<open>checkParameter(value, name, type)\<close>
  (\<^verbatim>\<open>./checkParameter\<close> is not among the sources) fails when the runtime type of the
  value is not the expected one. The first argument here is \<^verbatim>\<open>typeof value\<close>.
\<close>

definition checkParameter :: "js_type \<Rightarrow> string \<Rightarrow> js_type \<Rightarrow> error + unit" where
  "checkParameter value_type name type =
     (if value_type \<noteq> type then Inl (InvalidParameterError name type) else Inr ())"

subsection \<open>The request\<close>

text \<open>
  \<^verbatim>\<open>data\<close> is \<^verbatim>\<open>JSON.stringify({ query })\<close>; the model keeps the object that is
  serialized, which determines the text. The field \<open>http_method\<close> is the source's
  \<^verbatim>\<open>method\<close>.
\<close>

record request_data =
  query :: string

record AxiosRequestConfig =
  http_method :: string
  data :: request_data

text \<open>
  Modelled from the spec: the answer of the transport (\<^verbatim>\<open>./request\<close> is not among
  the sources) is the decoded body, a mapping that holds a \<open>groups\<close> sequence; what the
  elements of the sequence are is left open.
\<close>

record response =
  groups :: "jsval list"

record Subgraph =
  url :: string

subsection \<open>getGroups: the filter clause (lines 61 to 80)\<close>

text \<open>\<^verbatim>\<open>Array.prototype.join\<close> on an array of strings.\<close>

fun join :: "string \<Rightarrow> string list \<Rightarrow> string" where
  "join sep [] = []"
| "join sep [x] = x"
| "join sep (x # y # ys) = x @ sep @ join sep (y # ys)"

text \<open>
  The fragments pushed onto \<^verbatim>\<open>filterFragments\<close>, in the order of the pushes.
  \<^verbatim>\<open>if (admin)\<close> tests truthiness: a string is truthy unless it is empty.
  \<open>jsDateToGraphqlDate\<close> (\<^verbatim>\<open>./utils\<close>, not among the sources) is a parameter: the
  text that the template literal interpolates for a date.
\<close>

definition filterFragments :: "('d \<Rightarrow> string) \<Rightarrow> 'd GroupFilters \<Rightarrow> string list" where
  \<open>filterFragments jsDateToGraphqlDate f =
     (case admin f of
        Some a \<Rightarrow> (if a \<noteq> [] then [''admin: "'' @ a @ ''"''] else [])
      | None \<Rightarrow> [])
     @
     (case timestamp f of
        Some t \<Rightarrow> [''timestamp: "'' @ jsDateToGraphqlDate t @ ''"'']
      | None \<Rightarrow>
         (case timestampGte f of
            Some t \<Rightarrow> [''timestamp_gte: "'' @ jsDateToGraphqlDate t @ ''"'']
          | None \<Rightarrow>
             (case timestampLte f of
                Some t \<Rightarrow> [''timestamp_lte: "'' @ jsDateToGraphqlDate t @ ''"'']
              | None \<Rightarrow> [])))\<close>

definition filtersQuery :: "('d \<Rightarrow> string) \<Rightarrow> 'd GroupOptions \<Rightarrow> string" where
  "filtersQuery jsDateToGraphqlDate options =
     (case filters options of
        None \<Rightarrow> ''''
      | Some f \<Rightarrow>
          (if length (filterFragments jsDateToGraphqlDate f) > 0
           then ''(where: {'' @ join '', '' (filterFragments jsDateToGraphqlDate f) @ ''})''
           else ''''))"

subsection \<open>The query texts (lines 85 to 114 and 147 to 176)\<close>

definition getGroups_query :: "('d \<Rightarrow> string) \<Rightarrow> 'd GroupOptions \<Rightarrow> string" where
  "getGroups_query jsDateToGraphqlDate options =
     (let members = (case GroupOptions.members options of None \<Rightarrow> False | Some b \<Rightarrow> b);
          verifiedProofs = (case GroupOptions.verifiedProofs options of None \<Rightarrow> False | Some b \<Rightarrow> b)
      in
        ''{\<newline>'' @
        ''                    groups '' @ filtersQuery jsDateToGraphqlDate options @ '' {\<newline>'' @
        ''                        id\<newline>'' @
        ''                        merkleTree {\<newline>'' @
        ''                            root\<newline>'' @
        ''                            depth\<newline>'' @
        ''                            zeroValue\<newline>'' @
        ''                            numberOfLeaves\<newline>'' @
        ''                        }\<newline>'' @
        ''                        admin\<newline>'' @
        ''                        '' @
        (if members = True
         then ''members(orderBy: index) {\<newline>'' @
              ''                            identityCommitment\<newline>'' @
              ''                        }''
         else '''') @
        ''\<newline>'' @
        ''                        '' @
        (if verifiedProofs = True
         then ''verifiedProofs(orderBy: timestamp) {\<newline>'' @
              ''                            signal\<newline>'' @
              ''                            merkleTreeRoot\<newline>'' @
              ''                            externalNullifier\<newline>'' @
              ''                            nullifierHash\<newline>'' @
              ''                            timestamp\<newline>'' @
              ''                        }''
         else '''') @
        ''\<newline>'' @
        ''                    }\<newline>'' @
        ''                }'')"

definition getGroup_query :: "string \<Rightarrow> 'd GroupOptions \<Rightarrow> string" where
  \<open>getGroup_query groupId options =
     (let members = (case GroupOptions.members options of None \<Rightarrow> False | Some b \<Rightarrow> b);
          verifiedProofs = (case GroupOptions.verifiedProofs options of None \<Rightarrow> False | Some b \<Rightarrow> b)
      in
        ''{\<newline>'' @
        ''                    groups(where: { id: "'' @ groupId @ ''" }) {\<newline>'' @
        ''                        id\<newline>'' @
        ''                        merkleTree {\<newline>'' @
        ''                            root\<newline>'' @
        ''                            depth\<newline>'' @
        ''                            zeroValue\<newline>'' @
        ''                            numberOfLeaves\<newline>'' @
        ''                        }\<newline>'' @
        ''                        admin\<newline>'' @
        ''                        '' @
        (if members = True
         then ''members(orderBy: index) {\<newline>'' @
              ''                            identityCommitment\<newline>'' @
              ''                        }''
         else '''') @
        ''\<newline>'' @
        ''                        '' @
        (if verifiedProofs = True
         then ''verifiedProofs(orderBy: timestamp) {\<newline>'' @
              ''                            signal\<newline>'' @
              ''                            merkleTreeRoot\<newline>'' @
              ''                            externalNullifier\<newline>'' @
              ''                            nullifierHash\<newline>'' @
              ''                            timestamp\<newline>'' @
              ''                        }''
         else '''') @
        ''\<newline>'' @
        ''                    }\<newline>'' @
        ''                }'')\<close>

subsection \<open>Unwrapping the members (lines 120 to 124 and 182 to 184)\<close>

text \<open>
  The callback \<^verbatim>\<open>(member: any) => member.identityCommitment\<close>. Reading a property
  of \<^verbatim>\<open>undefined\<close> or \<^verbatim>\<open>null\<close> raises a TypeError; an object yields its own
  property, or \<^verbatim>\<open>undefined\<close> when it has none of that name; arrays, strings, numbers
  and booleans have no property of that name.
\<close>

fun identityCommitment :: "jsval \<Rightarrow> error + jsval" where
  "identityCommitment JUndefined = Inl TypeError"
| "identityCommitment JNull = Inl TypeError"
| "identityCommitment (JObj ps) =
     Inr (case map_of ps ''identityCommitment'' of None \<Rightarrow> JUndefined | Some v \<Rightarrow> v)"
| "identityCommitment _ = Inr JUndefined"

text \<open>\<^verbatim>\<open>Array.prototype.map\<close> with a callback that may raise: the first raise ends it.\<close>

fun array_map :: "(jsval \<Rightarrow> error + jsval) \<Rightarrow> jsval list \<Rightarrow> error + jsval list" where
  "array_map f [] = Inr []"
| "array_map f (x # xs) =
     (case f x of
        Inl e \<Rightarrow> Inl e
      | Inr y \<Rightarrow> (case array_map f xs of Inl e \<Rightarrow> Inl e | Inr ys \<Rightarrow> Inr (y # ys)))"

text \<open>
  The statement \<^verbatim>\<open>group.members = group.members.map(...)\<close>. It goes through only
  when \<^verbatim>\<open>group\<close> is an object whose \<^verbatim>\<open>members\<close> is an array: on
  \<^verbatim>\<open>undefined\<close> and \<^verbatim>\<open>null\<close> the property read raises; every other value
  without a \<^verbatim>\<open>members\<close> array has no callable \<^verbatim>\<open>map\<close> there, which raises too.
  The assignment replaces the property where it stands.
\<close>

fun unwrap_members :: "jsval \<Rightarrow> error + jsval" where
  "unwrap_members (JObj ps) =
     (case map_of ps ''members'' of
        Some (JArr ms) \<Rightarrow>
          (case array_map identityCommitment ms of
             Inl e \<Rightarrow> Inl e
           | Inr ids \<Rightarrow> Inr (JObj (AList.update ''members'' (JArr ids) ps)))
      | _ \<Rightarrow> Inl TypeError)"
| "unwrap_members _ = Inl TypeError"

text \<open>The loop \<^verbatim>\<open>for (const group of groups)\<close> of getGroups.\<close>

fun unwrap_all :: "jsval list \<Rightarrow> error + jsval list" where
  "unwrap_all [] = Inr []"
| "unwrap_all (g # rest) =
     (case unwrap_members g of
        Inl e \<Rightarrow> Inl e
      | Inr g' \<Rightarrow> (case unwrap_all rest of Inl e \<Rightarrow> Inl e | Inr rest' \<Rightarrow> Inr (g' # rest')))"

text \<open>\<^verbatim>\<open>groups[0]\<close>: \<^verbatim>\<open>undefined\<close> on the empty array.\<close>

definition groups_0 :: "jsval list \<Rightarrow> jsval" where
  "groups_0 gs = (case gs of [] \<Rightarrow> JUndefined | g # _ \<Rightarrow> g)"

subsection \<open>The two methods\<close>

text \<open>
  \<open>request\<close> (\<^verbatim>\<open>./request\<close>, the transport) is a parameter: given the URL and the
  request it answers with the decoded body or raises.
\<close>

definition getGroups_config :: "('d \<Rightarrow> string) \<Rightarrow> 'd GroupOptions \<Rightarrow> AxiosRequestConfig" where
  "getGroups_config jsDateToGraphqlDate options =
     \<lparr>http_method = ''post'', data = \<lparr>query = getGroups_query jsDateToGraphqlDate options\<rparr>\<rparr>"

definition getGroup_config :: "string \<Rightarrow> 'd GroupOptions \<Rightarrow> AxiosRequestConfig" where
  "getGroup_config groupId options =
     \<lparr>http_method = ''post'', data = \<lparr>query = getGroup_query groupId options\<rparr>\<rparr>"

definition getGroups ::
  "('d \<Rightarrow> string) \<Rightarrow> (string \<Rightarrow> AxiosRequestConfig \<Rightarrow> error + response) \<Rightarrow>
   Subgraph \<Rightarrow> 'd GroupOptions \<Rightarrow> error + jsval list" where
  "getGroups jsDateToGraphqlDate request this options =
     (case checkParameter T_object ''options'' T_object of
        Inl e \<Rightarrow> Inl e
      | Inr _ \<Rightarrow>
     (let members = (case GroupOptions.members options of None \<Rightarrow> False | Some b \<Rightarrow> b) in
      case checkParameter T_boolean ''members'' T_boolean of
        Inl e \<Rightarrow> Inl e
      | Inr _ \<Rightarrow>
     (case checkParameter T_boolean ''verifiedProofs'' T_boolean of
        Inl e \<Rightarrow> Inl e
      | Inr _ \<Rightarrow>
     (case request (url this) (getGroups_config jsDateToGraphqlDate options) of
        Inl e \<Rightarrow> Inl e
      | Inr r \<Rightarrow> (if members then unwrap_all (groups r) else Inr (groups r))))))"

definition getGroup ::
  "(string \<Rightarrow> AxiosRequestConfig \<Rightarrow> error + response) \<Rightarrow>
   Subgraph \<Rightarrow> string \<Rightarrow> 'd GroupOptions \<Rightarrow> error + jsval" where
  "getGroup request this groupId options =
     (case checkParameter T_string ''groupId'' T_string of
        Inl e \<Rightarrow> Inl e
      | Inr _ \<Rightarrow>
     (case checkParameter T_object ''options'' T_object of
        Inl e \<Rightarrow> Inl e
      | Inr _ \<Rightarrow>
     (let members = (case GroupOptions.members options of None \<Rightarrow> False | Some b \<Rightarrow> b) in
      case checkParameter T_boolean ''members'' T_boolean of
        Inl e \<Rightarrow> Inl e
      | Inr _ \<Rightarrow>
     (case checkParameter T_boolean ''verifiedProofs'' T_boolean of
        Inl e \<Rightarrow> Inl e
      | Inr _ \<Rightarrow>
     (case request (url this) (getGroup_config groupId options) of
        Inl e \<Rightarrow> Inl e
      | Inr r \<Rightarrow>
          (if members
           then (case unwrap_members (groups_0 (groups r)) of
                   Inl e \<Rightarrow> Inl e
                 | Inr g \<Rightarrow> Inr (groups_0 ((groups r)[0 := g])))
           else Inr (groups_0 (groups r))))))))"

subsection \<open>Reading a selection set\<close>

text \<open>
  What a query text requests is stated on its fields, read off the text the way the
  query language reads it: names, the punctuators \<open>{ } ( ) :\<close>, and white space and
  commas that separate them. A field is a name, the tokens of its arguments (between
  the parentheses) and the fields of its own selection set (between the braces).
  \<open>selected_fields\<close> reads one selection set, from its opening brace to the matching
  closing one, and is \<open>None\<close> on any other text.
\<close>

datatype token = LBrace | RBrace | LParen | RParen | Colon | Name string

definition is_name_char :: "char \<Rightarrow> bool" where
  "is_name_char c =
     (c \<in> set ''abcdefghijklmnopqrstuvwxyzABCDEFGHIJKLMNOPQRSTUVWXYZ0123456789_'')"

definition punctuator :: "char \<Rightarrow> token list option" where
  "punctuator c =
     (if c = CHR '' '' \<or> c = CHR ''\<newline>'' \<or> c = CHR 0x09 \<or> c = CHR 0x0D \<or> c = CHR '',''
      then Some []
      else if c = CHR ''{'' then Some [LBrace]
      else if c = CHR ''}'' then Some [RBrace]
      else if c = CHR ''('' then Some [LParen]
      else if c = CHR '')'' then Some [RParen]
      else if c = CHR '':'' then Some [Colon]
      else None)"

definition flush :: "string \<Rightarrow> token list" where
  "flush w = (if w = [] then [] else [Name w])"

fun tokens :: "string \<Rightarrow> string \<Rightarrow> token list option" where
  "tokens w [] = Some (flush w)"
| "tokens w (c # cs) =
     (if is_name_char c then tokens (w @ [c]) cs
      else (case punctuator c of
              None \<Rightarrow> None
            | Some p \<Rightarrow>
                (case tokens [] cs of None \<Rightarrow> None | Some ts \<Rightarrow> Some (flush w @ p @ ts))))"

datatype gql_field = GField string "token list" "gql_field list"

fun on_last :: "(gql_field \<Rightarrow> gql_field option) \<Rightarrow> gql_field list \<Rightarrow> gql_field list option" where
  "on_last f [] = None"
| "on_last f [x] = (case f x of None \<Rightarrow> None | Some y \<Rightarrow> Some [y])"
| "on_last f (x # y # ys) =
     (case on_last f (y # ys) of None \<Rightarrow> None | Some zs \<Rightarrow> Some (x # zs))"

fun set_arguments :: "token list \<Rightarrow> gql_field \<Rightarrow> gql_field option" where
  "set_arguments args (GField n [] []) = Some (GField n args [])"
| "set_arguments args _ = None"

fun set_subfields :: "gql_field list \<Rightarrow> gql_field \<Rightarrow> gql_field option" where
  "set_subfields fs (GField n args []) = (if fs = [] then None else Some (GField n args fs))"
| "set_subfields fs _ = None"

text \<open>
  The first argument holds the argument tokens read so far while between parentheses;
  the second is the stack of the selection sets that are open, innermost first.
\<close>

fun read_fields ::
  "token list option \<Rightarrow> gql_field list list \<Rightarrow> token list \<Rightarrow> gql_field list option" where
  "read_fields _ _ [] = None"
| "read_fields (Some args) stack (t # ts) =
     (if t = RParen
      then (case stack of
              [] \<Rightarrow> None
            | fs # st \<Rightarrow>
                (case on_last (set_arguments args) fs of
                   None \<Rightarrow> None
                 | Some fs' \<Rightarrow> read_fields None (fs' # st) ts))
      else read_fields (Some (args @ [t])) stack ts)"
| "read_fields None stack (Name n # ts) =
     (case stack of
        [] \<Rightarrow> None
      | fs # st \<Rightarrow> read_fields None ((fs @ [GField n [] []]) # st) ts)"
| "read_fields None stack (LParen # ts) = read_fields (Some []) stack ts"
| "read_fields None stack (LBrace # ts) = read_fields None ([] # stack) ts"
| "read_fields None stack (RBrace # ts) =
     (case stack of
        [] \<Rightarrow> None
      | [fs] \<Rightarrow> (if ts = [] then Some fs else None)
      | fs # parent # st \<Rightarrow>
          (case on_last (set_subfields fs) parent of
             None \<Rightarrow> None
           | Some parent' \<Rightarrow> read_fields None (parent' # st) ts))"
| "read_fields None stack (_ # ts) = None"

definition selected_fields :: "string \<Rightarrow> gql_field list option" where
  "selected_fields text =
     (case tokens [] text of None \<Rightarrow> None | Some ts \<Rightarrow> read_fields None [] ts)"

text \<open>
  The fields that the specification lists for a group: \<open>id\<close>, the four fields of
  \<open>merkleTree\<close> and \<open>admin\<close> always; \<open>members\<close>, ordered by index and asking for the
  identifier only, when \<open>m\<close> holds; \<open>verifiedProofs\<close>, ordered by timestamp and asking
  for its five fields, when \<open>v\<close> holds.
\<close>

definition spec_fields :: "bool \<Rightarrow> bool \<Rightarrow> gql_field list" where
  "spec_fields m v =
     [GField ''id'' [] [],
      GField ''merkleTree'' []
        [GField ''root'' [] [], GField ''depth'' [] [],
         GField ''zeroValue'' [] [], GField ''numberOfLeaves'' [] []],
      GField ''admin'' [] []]
     @ (if m
        then [GField ''members'' [Name ''orderBy'', Colon, Name ''index'']
                [GField ''identityCommitment'' [] []]]
        else [])
     @ (if v
        then [GField ''verifiedProofs'' [Name ''orderBy'', Colon, Name ''timestamp'']
                [GField ''signal'' [] [], GField ''merkleTreeRoot'' [] [],
                 GField ''externalNullifier'' [] [], GField ''nullifierHash'' [] [],
                 GField ''timestamp'' [] []]]
        else [])"

text \<open>
  The selection set that both templates spell out after the \<open>groups\<close> scope: the text
  from the opening brace that ends line 86 (line 148) to the closing brace of line 113
  (line 175), for the two flags after their defaults.
\<close>

definition group_selection :: "bool \<Rightarrow> bool \<Rightarrow> string" where
  "group_selection m v =
        ''{\<newline>'' @
        ''                        id\<newline>'' @
        ''                        merkleTree {\<newline>'' @
        ''                            root\<newline>'' @
        ''                            depth\<newline>'' @
        ''                            zeroValue\<newline>'' @
        ''                            numberOfLeaves\<newline>'' @
        ''                        }\<newline>'' @
        ''                        admin\<newline>'' @
        ''                        '' @
        (if m = True
         then ''members(orderBy: index) {\<newline>'' @
              ''                            identityCommitment\<newline>'' @
              ''                        }''
         else '''') @
        ''\<newline>'' @
        ''                        '' @
        (if v = True
         then ''verifiedProofs(orderBy: timestamp) {\<newline>'' @
              ''                            signal\<newline>'' @
              ''                            merkleTreeRoot\<newline>'' @
              ''                            externalNullifier\<newline>'' @
              ''                            nullifierHash\<newline>'' @
              ''                            timestamp\<newline>'' @
              ''                        }''
         else '''') @
        ''\<newline>'' @
        ''                    }''"

subsection \<open>Vocabulary for the statements about the answer\<close>

text \<open>
  The own property of a value under a name (\<open>None\<close> when there is none, or when the value
  is not an object), the names of its own properties in order, and the single-field
  record in which the service wraps a member's identifier.
\<close>

definition own_property :: "jsval \<Rightarrow> string \<Rightarrow> jsval option" where
  "own_property g k = (case g of JObj ps \<Rightarrow> map_of ps k | _ \<Rightarrow> None)"

definition own_keys :: "jsval \<Rightarrow> string list" where
  "own_keys g = (case g of JObj ps \<Rightarrow> map fst ps | _ \<Rightarrow> [])"

definition wrapper :: "jsval \<Rightarrow> jsval" where
  "wrapper v = JObj [(''identityCommitment'', v)]"

text \<open>The filters with the three timestamp fields taken away.\<close>

definition without_time :: "'d GroupFilters \<Rightarrow> 'd GroupFilters" where
  "without_time f = f\<lparr>timestamp := None, timestampGte := None, timestampLte := None\<rparr>"

subsection \<open>Transports and example values\<close>

text \<open>
  Two transports: \<open>answer gs\<close> answers every request with the groups \<open>gs\<close>; \<open>echo\<close>
  fails with the query text it was handed, which makes that text visible in the result
  of a method. The example values are those of the specification's examples: a raw group
  whose members are \<open>5\<close> and \<open>9\<close>, each in its wrapper, the same group with the members
  unwrapped, and filters whose dates are written as their own encodings.
\<close>

definition answer :: "jsval list \<Rightarrow> string \<Rightarrow> AxiosRequestConfig \<Rightarrow> error + response" where
  "answer gs u c = Inr \<lparr>groups = gs\<rparr>"

definition echo :: "string \<Rightarrow> AxiosRequestConfig \<Rightarrow> error + response" where
  "echo u c = Inl (TransportError (query (data c)))"

definition site :: Subgraph where
  "site = \<lparr>url = ''https://subgraph.example/semaphore''\<rparr>"

definition raw_group :: jsval where
  "raw_group = JObj
     [(''id'', JStr ''42''),
      (''merkleTree'', JObj [(''root'', JStr ''7''), (''depth'', JNum 16),
                            (''zeroValue'', JStr ''0''), (''numberOfLeaves'', JNum 2)]),
      (''admin'', JStr ''0xabc''),
      (''members'', JArr [JObj [(''identityCommitment'', JStr ''5'')],
                         JObj [(''identityCommitment'', JStr ''9'')]])]"

definition unwrapped_group :: jsval where
  "unwrapped_group = JObj
     [(''id'', JStr ''42''),
      (''merkleTree'', JObj [(''root'', JStr ''7''), (''depth'', JNum 16),
                            (''zeroValue'', JStr ''0''), (''numberOfLeaves'', JNum 2)]),
      (''admin'', JStr ''0xabc''),
      (''members'', JArr [JStr ''5'', JStr ''9''])]"

definition no_options :: "string GroupOptions" where
  "no_options = \<lparr>members = None, verifiedProofs = None, filters = None\<rparr>"

definition members_only :: "string GroupOptions" where
  "members_only = \<lparr>members = Some True, verifiedProofs = None, filters = None\<rparr>"

definition with_filters :: "string GroupFilters \<Rightarrow> string GroupOptions" where
  "with_filters f = \<lparr>members = Some True, verifiedProofs = None, filters = Some f\<rparr>"

definition all_three :: "string GroupFilters" where
  "all_three = \<lparr>admin = None, timestamp = Some ''T1'', timestampGte = Some ''T2'',
                 timestampLte = Some ''T3''\<rparr>"

definition two_bounds :: "string GroupFilters" where
  "two_bounds = \<lparr>admin = Some ''0xabc'', timestamp = None, timestampGte = Some ''T2'',
                  timestampLte = Some ''T3''\<rparr>"

definition upper_bound :: "string GroupFilters" where
  "upper_bound = \<lparr>admin = None, timestamp = None, timestampGte = None,
                   timestampLte = Some ''T3''\<rparr>"

definition admin_only :: "string GroupFilters" where
  "admin_only = \<lparr>admin = Some ''0xabc'', timestamp = None, timestampGte = None,
                  timestampLte = None\<rparr>"

definition empty_admin :: "string GroupOptions" where
  "empty_admin =
     \<lparr>members = None, verifiedProofs = None,
      filters = Some \<lparr>admin = Some '''', timestamp = None, timestampGte = None,
                      timestampLte = None\<rparr>\<rparr>"

section \<open>Properties\<close>

subsection \<open>The parameter checks and the transport\<close>

text \<open>
  The options of the model are well typed, so every parameter check passes; what a
  method returns is then decided by the transport's answer.
\<close>

lemma checkParameter_same [simp]: "checkParameter t name t = Inr ()"
  by (simp add: checkParameter_def)

lemma getGroups_request:
  "request (url this) (getGroups_config enc options) = Inr r \<Longrightarrow>
   getGroups enc request this options =
     (if GroupOptions.members options = Some True then unwrap_all (groups r) else Inr (groups r))"
  by (cases "GroupOptions.members options") (auto simp add: getGroups_def Let_def)

lemma getGroup_request:
  "request (url this) (getGroup_config groupId options) = Inr r \<Longrightarrow>
   getGroup request this groupId options =
     (if GroupOptions.members options = Some True
      then (case unwrap_members (groups_0 (groups r)) of
              Inl e \<Rightarrow> Inl e
            | Inr g \<Rightarrow> Inr (groups_0 ((groups r)[0 := g])))
      else Inr (groups_0 (groups r)))"
  by (cases "GroupOptions.members options") (auto simp add: getGroup_def Let_def)

subsection \<open>The query text and its selection set\<close>

lemma getGroups_query_selection:
  "getGroups_query enc options =
     ''{\<newline>                    groups '' @ filtersQuery enc options @ '' '' @
     group_selection (GroupOptions.members options = Some True)
       (GroupOptions.verifiedProofs options = Some True) @
     ''\<newline>                }''"
  by (cases "GroupOptions.members options"; cases "GroupOptions.verifiedProofs options")
     (simp_all add: getGroups_query_def group_selection_def Let_def)

lemma getGroup_query_selection:
  \<open>getGroup_query groupId options =
     ''{\<newline>                    groups(where: { id: "'' @ groupId @ ''" }) '' @
     group_selection (GroupOptions.members options = Some True)
       (GroupOptions.verifiedProofs options = Some True) @
     ''\<newline>                }''\<close>
  by (cases "GroupOptions.members options"; cases "GroupOptions.verifiedProofs options")
     (simp_all add: getGroup_query_def group_selection_def Let_def)

lemma selected_fields_TT:
  "selected_fields (group_selection True True) = Some (spec_fields True True)"
  by code_simp

lemma selected_fields_TF:
  "selected_fields (group_selection True False) = Some (spec_fields True False)"
  by code_simp

lemma selected_fields_FT:
  "selected_fields (group_selection False True) = Some (spec_fields False True)"
  by code_simp

lemma selected_fields_FF:
  "selected_fields (group_selection False False) = Some (spec_fields False False)"
  by code_simp

lemma selected_fields_group_selection:
  "selected_fields (group_selection m v) = Some (spec_fields m v)"
  by (cases m; cases v)
     (simp_all only: selected_fields_TT selected_fields_TF selected_fields_FT selected_fields_FF)

lemma no_where_in_group_selection:
  "\<not> sublist ''where'' (group_selection m v @ ''\<newline>                }'')"
  by (cases m; cases v) (simp_all add: group_selection_def sublist_code)

lemma no_where_without_filter:
  "\<not> sublist ''where''
       (''{\<newline>                    groups '' @ '' '' @ group_selection m v @
        ''\<newline>                }'')"
  by (cases m; cases v) (simp_all add: group_selection_def sublist_code)

text \<open>
  C2. For every options value, the query text of getGroups and that of getGroup is the
  scope (\<open>groups\<close> with its filter clause, or \<open>groups\<close> filtered by the id) followed by
  one selection set, and the fields of that selection set are exactly the ones the
  specification lists: \<open>id\<close>, \<open>merkleTree\<close> with its four fields, \<open>admin\<close>, then
  \<open>members\<close> (ordered by index, asking for \<open>identityCommitment\<close> only) if and only if
  \<open>options.members\<close> is true, then \<open>verifiedProofs\<close> (ordered by timestamp, with its five
  fields) if and only if \<open>options.verifiedProofs\<close> is true.
\<close>

theorem query_selects_spec_fields:
  \<open>(\<exists>sel. getGroups_query enc options =
            ''{\<newline>                    groups '' @ filtersQuery enc options @ '' '' @ sel @
            ''\<newline>                }'' \<and>
          selected_fields sel =
            Some (spec_fields (GroupOptions.members options = Some True)
                              (GroupOptions.verifiedProofs options = Some True)))
   \<and>
   (\<exists>sel. getGroup_query groupId options =
            ''{\<newline>                    groups(where: { id: "'' @ groupId @ ''" }) '' @ sel @
            ''\<newline>                }'' \<and>
          selected_fields sel =
            Some (spec_fields (GroupOptions.members options = Some True)
                              (GroupOptions.verifiedProofs options = Some True)))\<close>
proof (intro conjI)
  let ?sel = "group_selection (GroupOptions.members options = Some True)
                (GroupOptions.verifiedProofs options = Some True)"
  show \<open>\<exists>sel. getGroups_query enc options =
            ''{\<newline>                    groups '' @ filtersQuery enc options @ '' '' @ sel @
            ''\<newline>                }'' \<and>
          selected_fields sel =
            Some (spec_fields (GroupOptions.members options = Some True)
                              (GroupOptions.verifiedProofs options = Some True))\<close>
    using getGroups_query_selection [of enc options] selected_fields_group_selection
    by (intro exI [of _ ?sel] conjI)
  show \<open>\<exists>sel. getGroup_query groupId options =
            ''{\<newline>                    groups(where: { id: "'' @ groupId @ ''" }) '' @ sel @
            ''\<newline>                }'' \<and>
          selected_fields sel =
            Some (spec_fields (GroupOptions.members options = Some True)
                              (GroupOptions.verifiedProofs options = Some True))\<close>
    using getGroup_query_selection [of groupId options] selected_fields_group_selection
    by (intro exI [of _ ?sel] conjI)
qed

text \<open>
  C6. For every group id and every options value, the query text of getGroup does not
  depend on \<open>options.filters\<close>: replacing the filters by anything leaves the text, and
  the request, as they were. The text is the scope that matches the id exactly, followed
  by a remainder in which no \<open>where\<close> occurs.
\<close>

theorem getGroup_query_ignores_filters:
  \<open>getGroup_query groupId (options\<lparr>filters := x\<rparr>) = getGroup_query groupId options \<and>
   getGroup_config groupId (options\<lparr>filters := x\<rparr>) = getGroup_config groupId options \<and>
   (\<exists>rest. getGroup_query groupId options =
             ''{\<newline>                    groups(where: { id: "'' @ groupId @ ''" }) '' @ rest \<and>
           \<not> sublist ''where'' rest)\<close>
proof (intro conjI)
  show "getGroup_query groupId (options\<lparr>filters := x\<rparr>) = getGroup_query groupId options"
    by (simp add: getGroup_query_def)
  then show "getGroup_config groupId (options\<lparr>filters := x\<rparr>) = getGroup_config groupId options"
    by (simp add: getGroup_config_def)
  show \<open>\<exists>rest. getGroup_query groupId options =
             ''{\<newline>                    groups(where: { id: "'' @ groupId @ ''" }) '' @ rest \<and>
           \<not> sublist ''where'' rest\<close>
    using getGroup_query_selection [of groupId options] no_where_in_group_selection
    by blast
qed

text \<open>
  C10. For every group id, the query text of getGroup holds the id as it is, between
  \<open>groups(where: { id: "\<close> and \<open>" })\<close>, right after the opening line; an id with a
  double quote in it, such as \<open>a"b\<close>, stands there with the quote unescaped.
\<close>

theorem getGroup_query_embeds_groupId:
  \<open>(\<exists>rest. getGroup_query groupId options =
            ''{\<newline>                    '' @
            (''groups(where: { id: "'' @ groupId @ ''" })'') @ rest) \<and>
   sublist (''groups(where: { id: "'' @ groupId @ ''" })'') (getGroup_query groupId options) \<and>
   CHR 0x22 \<in> set ''a"b'' \<and>
   sublist ''groups(where: { id: "a"b" })'' (getGroup_query ''a"b'' options)\<close>
proof -
  have split: \<open>\<exists>rest. getGroup_query g options =
            ''{\<newline>                    '' @
            (''groups(where: { id: "'' @ g @ ''" })'') @ rest\<close> for g
    by (simp add: getGroup_query_def Let_def)
  have sub: \<open>sublist (''groups(where: { id: "'' @ g @ ''" })'') (getGroup_query g options)\<close> for g
  proof -
    from split [of g] obtain rest where
      r: \<open>getGroup_query g options =
            ''{\<newline>                    '' @ (''groups(where: { id: "'' @ g @ ''" })'') @ rest\<close> ..
    show ?thesis unfolding r by (rule sublist_appendI)
  qed
  have \<open>sublist ''groups(where: { id: "a"b" })'' (getGroup_query ''a"b'' options)\<close>
    using sub [of \<open>''a"b''\<close>] by simp
  with split sub show ?thesis by simp
qed

text \<open>
  C7. Building a query is a function of the scope and the options: equal inputs give
  the same text, character for character. The text that a method hands to the
  transport is that text whatever the object it is called on, as the echoing transport
  shows.
\<close>

theorem query_text_deterministic:
  "(options1 = options2 \<longrightarrow> getGroups_query enc options1 = getGroups_query enc options2) \<and>
   (groupId1 = groupId2 \<and> options1 = options2 \<longrightarrow>
      getGroup_query groupId1 options1 = getGroup_query groupId2 options2) \<and>
   getGroups enc echo this options = Inl (TransportError (getGroups_query enc options)) \<and>
   getGroup echo this groupId options = Inl (TransportError (getGroup_query groupId options))"
  by (simp add: getGroups_def getGroup_def echo_def getGroups_config_def getGroup_config_def)

theorem query_text_deterministic_witness:
  "with_filters two_bounds = with_filters two_bounds \<and>
   getGroups_query (\<lambda>d. d) (with_filters two_bounds) =
     getGroups_query (\<lambda>d. d) (with_filters two_bounds) \<and>
   (''42'' = ''42'' \<and> with_filters two_bounds = with_filters two_bounds) \<and>
   getGroup_query ''42'' (with_filters two_bounds) =
     getGroup_query ''42'' (with_filters two_bounds) \<and>
   getGroups (\<lambda>d. d) echo site (with_filters two_bounds) =
     Inl (TransportError (getGroups_query (\<lambda>d. d) (with_filters two_bounds))) \<and>
   getGroup echo site ''42'' (with_filters two_bounds) =
     Inl (TransportError (getGroup_query ''42'' (with_filters two_bounds)))"
  using query_text_deterministic
    [where ?options1.0 = "with_filters two_bounds" and ?options2.0 = "with_filters two_bounds"
       and ?groupId1.0 = "''42''" and ?groupId2.0 = "''42''" and enc = "\<lambda>d. d"
       and this = site and options = "with_filters two_bounds" and groupId = "''42''"]
  by simp

subsection \<open>The filter clause of getGroups\<close>

lemma join_Cons: "join sep (x # xs) = x @ (if xs = [] then [] else sep @ join sep xs)"
  by (cases xs) simp_all

lemma filterFragments_empty_iff:
  "filterFragments enc f = [] \<longleftrightarrow>
     (admin f = None \<or> admin f = Some []) \<and>
     timestamp f = None \<and> timestampGte f = None \<and> timestampLte f = None"
  by (auto simp add: filterFragments_def split: option.splits)

text \<open>
  C3. At most one of the three timestamp fields contributes to the filter clause. With
  \<open>timestamp\<close> set, the fragments are those of the filters without any timestamp field
  followed by the fragment of \<open>timestamp\<close> alone, and the clause joins exactly these,
  whatever \<open>timestampGte\<close> and \<open>timestampLte\<close> hold. With \<open>timestamp\<close> absent and
  \<open>timestampGte\<close> set, the one time fragment is that of \<open>timestampGte\<close>, whatever
  \<open>timestampLte\<close> holds; with only \<open>timestampLte\<close> set, it is that of
  \<open>timestampLte\<close>. With none of the three set there is no time fragment: the clause is
  the admin equality alone, or empty. The fragments of filters without a timestamp field
  are the admin fragment alone, or none.
\<close>

theorem timestamp_filter_precedence:
  assumes "filters options = Some f"
  shows
  \<open>(timestamp f = Some t1 \<longrightarrow>
      filterFragments enc f =
        filterFragments enc (without_time f) @ [''timestamp: "'' @ enc t1 @ ''"''] \<and>
      filtersQuery enc options =
        ''(where: {'' @
        join '', '' (filterFragments enc (without_time f) @ [''timestamp: "'' @ enc t1 @ ''"''])
        @ ''})'')
   \<and>
   (timestamp f = None \<and> timestampGte f = Some t2 \<longrightarrow>
      filterFragments enc f =
        filterFragments enc (without_time f) @ [''timestamp_gte: "'' @ enc t2 @ ''"''] \<and>
      filtersQuery enc options =
        ''(where: {'' @
        join '', '' (filterFragments enc (without_time f) @ [''timestamp_gte: "'' @ enc t2 @ ''"''])
        @ ''})'')
   \<and>
   (timestamp f = None \<and> timestampGte f = None \<and> timestampLte f = Some t3 \<longrightarrow>
      filterFragments enc f =
        filterFragments enc (without_time f) @ [''timestamp_lte: "'' @ enc t3 @ ''"''] \<and>
      filtersQuery enc options =
        ''(where: {'' @
        join '', '' (filterFragments enc (without_time f) @ [''timestamp_lte: "'' @ enc t3 @ ''"''])
        @ ''})'')
   \<and>
   (timestamp f = None \<and> timestampGte f = None \<and> timestampLte f = None \<longrightarrow>
      filterFragments enc f = filterFragments enc (without_time f) \<and>
      filtersQuery enc options =
        (case admin f of
           Some a \<Rightarrow> (if a \<noteq> [] then ''(where: {admin: "'' @ a @ ''"})'' else '''')
         | None \<Rightarrow> ''''))
   \<and>
   filterFragments enc (without_time f) =
     (case admin f of
        Some a \<Rightarrow> (if a \<noteq> [] then [''admin: "'' @ a @ ''"''] else [])
      | None \<Rightarrow> [])\<close>
proof -
  have frags: \<open>filterFragments enc (without_time f) =
     (case admin f of
        Some a \<Rightarrow> (if a \<noteq> [] then [''admin: "'' @ a @ ''"''] else [])
      | None \<Rightarrow> [])\<close>
    by (simp add: filterFragments_def without_time_def)
  have clause: "filtersQuery enc options =
      ''(where: {'' @ join '', '' (filterFragments enc f) @ ''})''"
    if "filterFragments enc f \<noteq> []"
    using that assms by (simp add: filtersQuery_def)
  have one: \<open>filterFragments enc f =
        filterFragments enc (without_time f) @ [''timestamp: "'' @ enc t1 @ ''"'']\<close>
    if "timestamp f = Some t1"
    using that by (simp add: filterFragments_def without_time_def)
  have two: \<open>filterFragments enc f =
        filterFragments enc (without_time f) @ [''timestamp_gte: "'' @ enc t2 @ ''"'']\<close>
    if "timestamp f = None \<and> timestampGte f = Some t2"
    using that by (simp add: filterFragments_def without_time_def)
  have three: \<open>filterFragments enc f =
        filterFragments enc (without_time f) @ [''timestamp_lte: "'' @ enc t3 @ ''"'']\<close>
    if "timestamp f = None \<and> timestampGte f = None \<and> timestampLte f = Some t3"
    using that by (simp add: filterFragments_def without_time_def)
  have none: \<open>filterFragments enc f = filterFragments enc (without_time f) \<and>
      filtersQuery enc options =
        (case admin f of
           Some a \<Rightarrow> (if a \<noteq> [] then ''(where: {admin: "'' @ a @ ''"})'' else '''')
         | None \<Rightarrow> '''')\<close>
    if "timestamp f = None \<and> timestampGte f = None \<and> timestampLte f = None"
    using that assms
    by (simp add: filterFragments_def filtersQuery_def without_time_def split: option.splits)
  show ?thesis
  proof (intro conjI impI)
    show \<open>filterFragments enc (without_time f) =
       (case admin f of
          Some a \<Rightarrow> (if a \<noteq> [] then [''admin: "'' @ a @ ''"''] else [])
        | None \<Rightarrow> [])\<close>
      by (rule frags)
  qed (use one two three none clause in \<open>simp_all only: append_is_Nil_conv not_Cons_self2 simp_thms\<close>)
qed

theorem timestamp_filter_precedence_witness:
  \<open>(filters (with_filters all_three) = Some all_three \<and> timestamp all_three = Some ''T1'') \<and>
   filterFragments (\<lambda>d. d) all_three = [''timestamp: "T1"''] \<and>
   filtersQuery (\<lambda>d. d) (with_filters all_three) = ''(where: {timestamp: "T1"})'' \<and>
   (filters (with_filters two_bounds) = Some two_bounds \<and>
    timestamp two_bounds = None \<and> timestampGte two_bounds = Some ''T2'') \<and>
   filterFragments (\<lambda>d. d) two_bounds = [''admin: "0xabc"'', ''timestamp_gte: "T2"''] \<and>
   filtersQuery (\<lambda>d. d) (with_filters two_bounds) =
     ''(where: {admin: "0xabc", timestamp_gte: "T2"})'' \<and>
   (filters (with_filters upper_bound) = Some upper_bound \<and>
    timestamp upper_bound = None \<and> timestampGte upper_bound = None \<and>
    timestampLte upper_bound = Some ''T3'') \<and>
   filterFragments (\<lambda>d. d) upper_bound = [''timestamp_lte: "T3"''] \<and>
   filtersQuery (\<lambda>d. d) (with_filters upper_bound) = ''(where: {timestamp_lte: "T3"})'' \<and>
   (filters (with_filters admin_only) = Some admin_only \<and>
    timestamp admin_only = None \<and> timestampGte admin_only = None \<and>
    timestampLte admin_only = None) \<and>
   filterFragments (\<lambda>d. d) admin_only = [''admin: "0xabc"''] \<and>
   filtersQuery (\<lambda>d. d) (with_filters admin_only) = ''(where: {admin: "0xabc"})''\<close>
proof -
  have f: "filters (with_filters x) = Some x" for x
    by (simp add: with_filters_def)
  note inst = timestamp_filter_precedence
    [OF f, where enc = "\<lambda>d. d" and ?t1.0 = "''T1''" and ?t2.0 = "''T2''" and ?t3.0 = "''T3''"]
  have a: \<open>filterFragments (\<lambda>d. d) all_three = [''timestamp: "T1"''] \<and>
      filtersQuery (\<lambda>d. d) (with_filters all_three) = ''(where: {timestamp: "T1"})''\<close>
    using inst [of all_three] by (simp add: all_three_def)
  have b: \<open>filterFragments (\<lambda>d. d) two_bounds = [''admin: "0xabc"'', ''timestamp_gte: "T2"''] \<and>
      filtersQuery (\<lambda>d. d) (with_filters two_bounds) =
        ''(where: {admin: "0xabc", timestamp_gte: "T2"})''\<close>
    using inst [of two_bounds] by (simp add: two_bounds_def)
  have c: \<open>filterFragments (\<lambda>d. d) upper_bound = [''timestamp_lte: "T3"''] \<and>
      filtersQuery (\<lambda>d. d) (with_filters upper_bound) = ''(where: {timestamp_lte: "T3"})''\<close>
    using inst [of upper_bound] by (simp add: upper_bound_def)
  have d: \<open>filterFragments (\<lambda>d. d) admin_only = [''admin: "0xabc"''] \<and>
      filtersQuery (\<lambda>d. d) (with_filters admin_only) = ''(where: {admin: "0xabc"})''\<close>
    using inst [of admin_only] by (simp add: admin_only_def)
  show ?thesis
    using a b c d f
    by (simp add: all_three_def two_bounds_def upper_bound_def admin_only_def)
qed

text \<open>
  C4. When \<open>options.filters\<close> is absent, or present without contributing any fragment
  (by \<open>filterFragments_empty_iff\<close>: no timestamp field, and the admin absent or empty),
  the filter clause is the empty text: the query is the one built without filters, it
  opens with \<open>groups\<close>, two blanks and the brace of the selection set, and \<open>where\<close>
  occurs nowhere in it.
\<close>

theorem no_filter_clause_without_fragments:
  assumes "filters options = None \<or>
           (\<exists>f. filters options = Some f \<and> filterFragments enc f = [])"
  shows "filtersQuery enc options = '''' \<and>
         getGroups_query enc options = getGroups_query enc (options\<lparr>filters := None\<rparr>) \<and>
         prefix ''{\<newline>                    groups  {\<newline>'' (getGroups_query enc options) \<and>
         \<not> sublist ''where'' (getGroups_query enc options)"
proof -
  from assms have fq: "filtersQuery enc options = ''''"
    by (auto simp add: filtersQuery_def)
  have fq': "filtersQuery enc (options\<lparr>filters := None\<rparr>) = ''''"
    by (simp add: filtersQuery_def)
  have eq: "getGroups_query enc options = getGroups_query enc (options\<lparr>filters := None\<rparr>)"
    by (simp add: getGroups_query_selection fq fq')
  have pre: "prefix ''{\<newline>                    groups  {\<newline>'' (getGroups_query enc options)"
    by (simp add: getGroups_query_selection fq group_selection_def)
  have "\<not> sublist ''where'' (getGroups_query enc options)"
    unfolding getGroups_query_selection fq append_Nil by (rule no_where_without_filter)
  with fq eq pre show ?thesis by simp
qed

theorem no_filter_clause_without_fragments_witness:
  "filters no_options = None \<and>
   filtersQuery (\<lambda>d. d) no_options = '''' \<and>
   prefix ''{\<newline>                    groups  {\<newline>'' (getGroups_query (\<lambda>d. d) no_options) \<and>
   \<not> sublist ''where'' (getGroups_query (\<lambda>d. d) no_options) \<and>
   (\<exists>f. filters empty_admin = Some f \<and> filterFragments (\<lambda>d. d) f = []) \<and>
   filtersQuery (\<lambda>d. d) empty_admin = '''' \<and>
   prefix ''{\<newline>                    groups  {\<newline>'' (getGroups_query (\<lambda>d. d) empty_admin) \<and>
   \<not> sublist ''where'' (getGroups_query (\<lambda>d. d) empty_admin)"
proof -
  have h1: "filters no_options = None"
    by (simp add: no_options_def)
  have h2: "\<exists>f. filters empty_admin = Some f \<and> filterFragments (\<lambda>d. d) f = []"
    by (simp add: empty_admin_def filterFragments_def)
  from h1 have p1: "filters no_options = None \<or>
      (\<exists>f. filters no_options = Some f \<and> filterFragments (\<lambda>d. d) f = [])" ..
  from h2 have p2: "filters empty_admin = None \<or>
      (\<exists>f. filters empty_admin = Some f \<and> filterFragments (\<lambda>d. d) f = [])" ..
  from no_filter_clause_without_fragments [OF p1] no_filter_clause_without_fragments [OF p2] h1 h2
  show ?thesis by blast
qed

text \<open>
  C5, as amended. For every filters value whose admin is a string that is not empty,
  the admin equality fragment for that value is the first fragment, followed by the
  fragments of the same filters without the admin, whatever the timestamp fields hold;
  it stands in the filter clause, at the head of the \<open>where\<close> of the query.
\<close>

theorem admin_fragment_when_nonempty:
  assumes "filters options = Some f" and "admin f = Some a" and "a \<noteq> []"
  shows \<open>filterFragments enc f =
           (''admin: "'' @ a @ ''"'') # filterFragments enc (f\<lparr>admin := None\<rparr>) \<and>
         sublist (''admin: "'' @ a @ ''"'') (filtersQuery enc options) \<and>
         prefix (''{\<newline>                    groups (where: {admin: "'' @ a @ ''"'')
           (getGroups_query enc options)\<close>
proof -
  let ?F = \<open>''admin: "'' @ a @ ''"''\<close>
  let ?rest = "filterFragments enc (f\<lparr>admin := None\<rparr>)"
  from assms have ff: "filterFragments enc f = ?F # ?rest"
    by (simp add: filterFragments_def split: option.splits)
  obtain s where j: "join '', '' (?F # ?rest) = ?F @ s"
    by (simp add: join_Cons)
  from assms ff have "filtersQuery enc options =
      ''(where: {'' @ join '', '' (filterFragments enc f) @ ''})''"
    by (simp add: filtersQuery_def)
  then have fq: "filtersQuery enc options = ''(where: {'' @ ?F @ s @ ''})''"
    by (simp only: ff j append_assoc)
  have "sublist ?F (filtersQuery enc options)"
    unfolding fq by (rule sublist_appendI)
  moreover have \<open>prefix (''{\<newline>                    groups (where: {admin: "'' @ a @ ''"'')
           (getGroups_query enc options)\<close>
    by (simp add: getGroups_query_selection fq)
  ultimately show ?thesis using ff by simp
qed

theorem admin_fragment_when_nonempty_witness:
  \<open>filters (with_filters two_bounds) = Some two_bounds \<and>
   admin two_bounds = Some ''0xabc'' \<and>
   ''0xabc'' \<noteq> '''' \<and>
   filterFragments (\<lambda>d. d) two_bounds =
     ''admin: "0xabc"'' # filterFragments (\<lambda>d. d) (two_bounds\<lparr>admin := None\<rparr>) \<and>
   sublist ''admin: "0xabc"'' (filtersQuery (\<lambda>d. d) (with_filters two_bounds)) \<and>
   prefix ''{\<newline>                    groups (where: {admin: "0xabc"''
     (getGroups_query (\<lambda>d. d) (with_filters two_bounds))\<close>
proof -
  have h1: "filters (with_filters two_bounds) = Some two_bounds"
    by (simp add: with_filters_def)
  have h2: "admin two_bounds = Some ''0xabc''"
    by (simp add: two_bounds_def)
  have h3: "''0xabc'' \<noteq> ''''"
    by simp
  from admin_fragment_when_nonempty [OF h1 h2 h3, of "\<lambda>d. d"] h1 h2 h3
  show ?thesis by simp
qed

text \<open>
  C5 as stated fails on the empty string: filters whose admin is \<open>""\<close> and nothing else
  give no filter clause at all, and the admin equality fragment for \<open>""\<close> is nowhere in
  the query.
\<close>

theorem empty_admin_counterexample:
  \<open>filtersQuery (\<lambda>d. d) empty_admin = '''' \<and>
   \<not> sublist ''admin: ""'' (getGroups_query (\<lambda>d. d) empty_admin)\<close>
  by (simp add: empty_admin_def getGroups_query_def filtersQuery_def filterFragments_def
        sublist_code)

subsection \<open>Unwrapping the members\<close>

lemma array_map_wrapper: "array_map identityCommitment (map wrapper ids) = Inr ids"
  by (induction ids) (simp_all add: wrapper_def)

lemma map_of_update: "map_of (AList.update k v ps) = (map_of ps)(k \<mapsto> v)"
  by (rule update_conv')

lemma keys_update: "map_of ps k = Some w \<Longrightarrow> map fst (AList.update k v ps) = map fst ps"
  by (induction ps) (auto split: if_splits)

lemma unwrap_members_Inr:
  "unwrap_members g = Inr g' \<Longrightarrow>
   \<exists>ps ms ids. g = JObj ps \<and> map_of ps ''members'' = Some (JArr ms) \<and>
     array_map identityCommitment ms = Inr ids \<and>
     g' = JObj (AList.update ''members'' (JArr ids) ps)"
  by (cases g) (auto split: option.splits jsval.splits sum.splits)

lemma unwrap_members_frame:
  assumes "unwrap_members g = Inr g'"
  shows "own_keys g' = own_keys g"
    and "k \<noteq> ''members'' \<Longrightarrow> own_property g' k = own_property g k"
proof -
  from unwrap_members_Inr [OF assms] obtain ps ms ids where
    g: "g = JObj ps" and m: "map_of ps ''members'' = Some (JArr ms)"
    and g': "g' = JObj (AList.update ''members'' (JArr ids) ps)" by blast
  show "own_keys g' = own_keys g"
    using keys_update [OF m] by (simp add: g g' own_keys_def)
  show "own_property g' k = own_property g k" if "k \<noteq> ''members''"
    using that by (simp add: g g' own_property_def map_of_update)
qed

lemma unwrap_members_wrapper:
  "own_property g ''members'' = Some (JArr (map wrapper ids)) \<Longrightarrow>
   \<exists>g'. unwrap_members g = Inr g' \<and> own_property g' ''members'' = Some (JArr ids)"
  by (cases g) (simp_all add: own_property_def array_map_wrapper map_of_update)

lemma unwrap_all_Inr:
  "unwrap_all gs = Inr res \<Longrightarrow> list_all2 (\<lambda>g g'. unwrap_members g = Inr g') gs res"
  by (induction gs arbitrary: res) (auto split: sum.splits)

lemma unwrap_all_wrapper:
  "list_all2 (\<lambda>g ids. own_property g ''members'' = Some (JArr (map wrapper ids))) gs idss \<Longrightarrow>
   \<exists>res. unwrap_all gs = Inr res \<and>
     list_all2 (\<lambda>g' ids. own_property g' ''members'' = Some (JArr ids)) res idss"
proof (induction gs arbitrary: idss)
  case Nil
  then show ?case by simp
next
  case (Cons g gs)
  then obtain ids rest where idss: "idss = ids # rest"
    and g: "own_property g ''members'' = Some (JArr (map wrapper ids))"
    and gs: "list_all2 (\<lambda>g ids. own_property g ''members'' = Some (JArr (map wrapper ids))) gs rest"
    by (auto simp add: list_all2_Cons1)
  from unwrap_members_wrapper [OF g] obtain g' where
    g': "unwrap_members g = Inr g'" "own_property g' ''members'' = Some (JArr ids)" by blast
  from Cons.IH [OF gs] obtain res where
    res: "unwrap_all gs = Inr res"
      "list_all2 (\<lambda>g' ids. own_property g' ''members'' = Some (JArr ids)) res rest" by blast
  show ?case using g' res by (simp add: idss)
qed

text \<open>
  C8. With \<open>options.members\<close> true, when every raw group carries its members as a
  sequence of wrapper records, getGroups returns (it does not raise) as many groups, in
  the same order, each with its members replaced by the sequence of the bare values in
  the same order; getGroup returns the first group with its members replaced likewise.
\<close>

theorem members_unwrapped_in_order:
  "(GroupOptions.members options = Some True \<and>
    request (url this) (getGroups_config enc options) = Inr r \<and>
    list_all2 (\<lambda>g ids. own_property g ''members'' = Some (JArr (map wrapper ids))) (groups r) idss
    \<longrightarrow> (\<exists>res. getGroups enc request this options = Inr res \<and>
           list_all2 (\<lambda>g' ids. own_property g' ''members'' = Some (JArr ids)) res idss))
   \<and>
   (GroupOptions.members options = Some True \<and>
    request (url this) (getGroup_config groupId options) = Inr r \<and>
    groups r = g # rest \<and>
    own_property g ''members'' = Some (JArr (map wrapper ids))
    \<longrightarrow> (\<exists>g'. getGroup request this groupId options = Inr g' \<and>
           own_property g' ''members'' = Some (JArr ids)))"
proof (intro conjI impI)
  assume a: "GroupOptions.members options = Some True \<and>
    request (url this) (getGroups_config enc options) = Inr r \<and>
    list_all2 (\<lambda>g ids. own_property g ''members'' = Some (JArr (map wrapper ids))) (groups r) idss"
  then have "getGroups enc request this options = unwrap_all (groups r)"
    by (simp add: getGroups_request)
  with a unwrap_all_wrapper [of "groups r" idss]
  show "\<exists>res. getGroups enc request this options = Inr res \<and>
           list_all2 (\<lambda>g' ids. own_property g' ''members'' = Some (JArr ids)) res idss"
    by simp
next
  assume a: "GroupOptions.members options = Some True \<and>
    request (url this) (getGroup_config groupId options) = Inr r \<and>
    groups r = g # rest \<and>
    own_property g ''members'' = Some (JArr (map wrapper ids))"
  from a unwrap_members_wrapper [of g ids] obtain g' where
    g': "unwrap_members g = Inr g'" "own_property g' ''members'' = Some (JArr ids)" by blast
  from a g' have "getGroup request this groupId options = Inr g'"
    by (simp add: getGroup_request groups_0_def)
  with g' show "\<exists>g'. getGroup request this groupId options = Inr g' \<and>
           own_property g' ''members'' = Some (JArr ids)" by simp
qed

theorem members_unwrapped_in_order_witness:
  "(GroupOptions.members members_only = Some True \<and>
    answer [raw_group, raw_group] (url site) (getGroups_config (\<lambda>d. d) members_only) =
      Inr \<lparr>groups = [raw_group, raw_group]\<rparr> \<and>
    list_all2 (\<lambda>g ids. own_property g ''members'' = Some (JArr (map wrapper ids)))
      [raw_group, raw_group] [[JStr ''5'', JStr ''9''], [JStr ''5'', JStr ''9'']]) \<and>
   (\<exists>res. getGroups (\<lambda>d. d) (answer [raw_group, raw_group]) site members_only = Inr res \<and>
      list_all2 (\<lambda>g' ids. own_property g' ''members'' = Some (JArr ids)) res
        [[JStr ''5'', JStr ''9''], [JStr ''5'', JStr ''9'']]) \<and>
   (answer [raw_group] (url site) (getGroup_config ''42'' members_only) =
      Inr \<lparr>groups = [raw_group]\<rparr> \<and>
    own_property raw_group ''members'' = Some (JArr (map wrapper [JStr ''5'', JStr ''9'']))) \<and>
   (\<exists>g'. getGroup (answer [raw_group]) site ''42'' members_only = Inr g' \<and>
      own_property g' ''members'' = Some (JArr [JStr ''5'', JStr ''9'']))"
proof -
  have m: "GroupOptions.members members_only = Some True"
    by (simp add: members_only_def)
  have w: "own_property raw_group ''members'' = Some (JArr (map wrapper [JStr ''5'', JStr ''9'']))"
    by (simp add: raw_group_def own_property_def wrapper_def)
  have r2: "answer [raw_group, raw_group] (url site) (getGroups_config (\<lambda>d. d) members_only) =
      Inr \<lparr>groups = [raw_group, raw_group]\<rparr>"
    by (simp add: answer_def)
  have r1: "answer [raw_group] (url site) (getGroup_config ''42'' members_only) =
      Inr \<lparr>groups = [raw_group]\<rparr>"
    by (simp add: answer_def)
  have l: "list_all2 (\<lambda>g ids. own_property g ''members'' = Some (JArr (map wrapper ids)))
      [raw_group, raw_group] [[JStr ''5'', JStr ''9''], [JStr ''5'', JStr ''9'']]"
    using w by simp
  note inst = members_unwrapped_in_order
    [where options = members_only and enc = "\<lambda>d. d" and this = site and groupId = "''42''"
       and ids = "[JStr ''5'', JStr ''9'']" and g = raw_group and rest = "[]"]
  have a: "\<exists>res. getGroups (\<lambda>d. d) (answer [raw_group, raw_group]) site members_only = Inr res \<and>
      list_all2 (\<lambda>g' ids. own_property g' ''members'' = Some (JArr ids)) res
        [[JStr ''5'', JStr ''9''], [JStr ''5'', JStr ''9'']]"
    using inst [where request = "answer [raw_group, raw_group]"
        and r = "\<lparr>groups = [raw_group, raw_group]\<rparr>"
        and idss = "[[JStr ''5'', JStr ''9''], [JStr ''5'', JStr ''9'']]", THEN conjunct1]
      m r2 l by simp
  have b: "\<exists>g'. getGroup (answer [raw_group]) site ''42'' members_only = Inr g' \<and>
      own_property g' ''members'' = Some (JArr [JStr ''5'', JStr ''9''])"
    using inst [where request = "answer [raw_group]" and r = "\<lparr>groups = [raw_group]\<rparr>",
        THEN conjunct2]
      m r1 w by simp
  from m w r1 r2 l a b show ?thesis by blast
qed

text \<open>
  C9. Whatever the transport answers, when \<open>options.members\<close> is not true getGroups
  returns the groups exactly as they came. In every case in which it returns, it returns
  as many groups as came, in the same order, each with the same property names in the
  same order, and with every property other than \<open>members\<close> unchanged.
\<close>

theorem normalization_frame:
  "request (url this) (getGroups_config enc options) = Inr r \<longrightarrow>
     (GroupOptions.members options \<noteq> Some True \<longrightarrow>
        getGroups enc request this options = Inr (groups r)) \<and>
     (\<forall>res. getGroups enc request this options = Inr res \<longrightarrow>
        length res = length (groups r) \<and>
        (\<forall>i<length res.
           own_keys (res ! i) = own_keys (groups r ! i) \<and>
           (\<forall>k. k \<noteq> ''members'' \<longrightarrow>
              own_property (res ! i) k = own_property (groups r ! i) k)))"
proof (intro impI conjI allI)
  assume req: "request (url this) (getGroups_config enc options) = Inr r"
  show "getGroups enc request this options = Inr (groups r)"
    if "GroupOptions.members options \<noteq> Some True"
    using that req by (simp add: getGroups_request)
  fix res
  assume res: "getGroups enc request this options = Inr res"
  have rel: "list_all2 (\<lambda>g g'. g' = g \<or> unwrap_members g = Inr g') (groups r) res"
  proof (cases "GroupOptions.members options = Some True")
    case True
    with res req have "unwrap_all (groups r) = Inr res"
      by (simp add: getGroups_request)
    from unwrap_all_Inr [OF this] show ?thesis
      by (rule list_all2_mono) simp
  next
    case False
    with res req have "res = groups r"
      by (simp add: getGroups_request)
    then show ?thesis by (simp add: list_all2_same)
  qed
  show len: "length res = length (groups r)"
    using rel by (simp add: list_all2_lengthD)
  fix i
  assume i: "i < length res"
  with rel len have step: "res ! i = groups r ! i \<or> unwrap_members (groups r ! i) = Inr (res ! i)"
    by (simp add: list_all2_conv_all_nth)
  then show "own_keys (res ! i) = own_keys (groups r ! i)"
    using unwrap_members_frame(1) by auto
  fix k :: string
  assume "k \<noteq> ''members''"
  with step show "own_property (res ! i) k = own_property (groups r ! i) k"
    using unwrap_members_frame(2) by auto
qed

theorem normalization_frame_witness:
  "answer [raw_group, raw_group] (url site) (getGroups_config (\<lambda>d. d) members_only) =
     Inr \<lparr>groups = [raw_group, raw_group]\<rparr> \<and>
   getGroups (\<lambda>d. d) (answer [raw_group, raw_group]) site members_only =
     Inr [unwrapped_group, unwrapped_group] \<and>
   own_keys unwrapped_group = own_keys raw_group \<and>
   own_property unwrapped_group ''admin'' = own_property raw_group ''admin'' \<and>
   own_property unwrapped_group ''merkleTree'' = own_property raw_group ''merkleTree'' \<and>
   answer [raw_group, raw_group] (url site) (getGroups_config (\<lambda>d. d) no_options) =
     Inr \<lparr>groups = [raw_group, raw_group]\<rparr> \<and>
   getGroups (\<lambda>d. d) (answer [raw_group, raw_group]) site no_options =
     Inr [raw_group, raw_group]"
proof -
  have r2: "answer [raw_group, raw_group] (url site) (getGroups_config (\<lambda>d. d) members_only) =
      Inr \<lparr>groups = [raw_group, raw_group]\<rparr>"
    by (simp add: answer_def)
  have r0: "answer [raw_group, raw_group] (url site) (getGroups_config (\<lambda>d. d) no_options) =
      Inr \<lparr>groups = [raw_group, raw_group]\<rparr>"
    by (simp add: answer_def)
  have run: "getGroups (\<lambda>d. d) (answer [raw_group, raw_group]) site members_only =
      Inr [unwrapped_group, unwrapped_group]"
    by (simp add: getGroups_def answer_def members_only_def raw_group_def unwrapped_group_def)
  note inst = normalization_frame
    [where request = "answer [raw_group, raw_group]" and this = site and enc = "\<lambda>d. d"
       and r = "\<lparr>groups = [raw_group, raw_group]\<rparr>"]
  from inst [where options = members_only] r2 run
  have frame: "\<forall>i<2. own_keys ([unwrapped_group, unwrapped_group] ! i) =
                  own_keys ([raw_group, raw_group] ! i) \<and>
               (\<forall>k. k \<noteq> ''members'' \<longrightarrow>
                  own_property ([unwrapped_group, unwrapped_group] ! i) k =
                  own_property ([raw_group, raw_group] ! i) k)"
    by simp
  from frame [rule_format, of 0] have
    k: "own_keys unwrapped_group = own_keys raw_group" and
    p: "\<And>k. k \<noteq> ''members'' \<Longrightarrow> own_property unwrapped_group k = own_property raw_group k"
    by simp_all
  from inst [where options = no_options] r0
  have pass: "getGroups (\<lambda>d. d) (answer [raw_group, raw_group]) site no_options =
      Inr [raw_group, raw_group]"
    by (simp add: no_options_def)
  from r2 r0 run k p [of "''admin''"] p [of "''merkleTree''"] pass show ?thesis by simp
qed

subsection \<open>The group that is not there\<close>

text \<open>
  When the transport answers with no group, getGroup returns \<^verbatim>\<open>undefined\<close> unless
  \<open>options.members\<close> is true; with the members asked for, the statement that unwraps
  them reads a property of \<^verbatim>\<open>undefined\<close> and raises.
\<close>

lemma getGroup_empty_answer:
  "request (url this) (getGroup_config groupId options) = Inr r \<Longrightarrow> groups r = [] \<Longrightarrow>
   getGroup request this groupId options =
     (if GroupOptions.members options = Some True then Inl TypeError else Inr JUndefined)"
  by (simp add: getGroup_request groups_0_def)

text \<open>
  C1. The claim is that getGroup returns \<^verbatim>\<open>undefined\<close>, and does not raise, on an
  answer without groups for every options value. The method evaluated on such an answer
  with \<open>members: true\<close> raises a TypeError.
\<close>

theorem getGroup_not_found_with_members:
  "getGroup (answer []) site ''missing-id'' members_only = Inl TypeError"
  by (simp add: getGroup_def groups_0_def answer_def members_only_def)

end
